theory Spec2Isabelle
  imports Complex_Main "HOL-Library.AList" "HOL-Library.Char_ord" "HOL-Library.List_Lexorder"
    "HOL-Library.Option_ord"
begin

section \<open>Values, dictionaries and rows\<close>

text \<open>
  The application is Python over SQLite. A Python value that reaches the database, or
  comes back from it, is \<open>None\<close> (SQL NULL), an integer or a text; dates and timestamps
  are bound as ISO texts. A Python \<open>dict\<close> is an association list read with
  \<open>map_of\<close>; a table row is a dictionary from column names to values, where a column
  that is not listed is NULL.
\<close>

datatype val = VNone | VInt int | VText string

type_synonym pydict = "(string \<times> val) list"

type_synonym linha = "(string \<times> val) list"

text \<open>\<open>d.get(k)\<close>: the value under \<open>k\<close>, \<open>None\<close> when the key is missing.\<close>

definition dget :: "pydict \<Rightarrow> string \<Rightarrow> val" where
  "dget d k = (case map_of d k of None \<Rightarrow> VNone | Some v \<Rightarrow> v)"

text \<open>\<open>d.get(k, padrao)\<close>.\<close>

definition dget_or :: "pydict \<Rightarrow> string \<Rightarrow> val \<Rightarrow> val" where
  "dget_or d k padrao = (case map_of d k of None \<Rightarrow> padrao | Some v \<Rightarrow> v)"


section \<open>Settings: profiles and the status funnel (config/settings.py)\<close>

text \<open>
  \<open>PERFIS\<close> maps a profile key to its display name and its permission list; only the
  permission list is read by the permission check, so the table keeps that.
\<close>

definition PERFIS :: "(string \<times> string list) list" where
  "PERFIS =
    [(''ADMIN'', [''*'']),
     (''PASTOR'',
        [''pessoas.ver'', ''pessoas.editar'',
         ''visitantes.ver'', ''visitantes.editar'',
         ''ministerios.ver'', ''ministerios.editar'',
         ''celulas.ver'', ''celulas.editar'',
         ''eventos.ver'', ''eventos.editar'',
         ''comunicacao.ver'', ''comunicacao.enviar'',
         ''aconselhamento.ver'', ''aconselhamento.editar'',
         ''dashboard.ver'',
         ''relatorios.ver'',
         ''configuracoes.usuarios'', ''configuracoes.igreja'', ''configuracoes.logs'']),
     (''LIDER'',
        [''pessoas.ver'',
         ''visitantes.ver'',
         ''ministerios.ver'',
         ''celulas.ver'', ''celulas.editar_proprio'',
         ''eventos.ver'',
         ''comunicacao.ver'', ''comunicacao.enviar_grupo'',
         ''dashboard.ver_proprio'']),
     (''SECRETARIA'',
        [''pessoas.ver'', ''pessoas.editar'',
         ''visitantes.ver'', ''visitantes.editar'',
         ''ministerios.ver'',
         ''celulas.ver'',
         ''eventos.ver'', ''eventos.editar'',
         ''comunicacao.ver'', ''comunicacao.enviar'',
         ''relatorios.ver'',
         ''configuracoes.igreja'']),
     (''FINANCEIRO'',
        [''pessoas.ver'',
         ''doacoes.ver'', ''doacoes.editar'',
         ''relatorios.financeiro'',
         ''dashboard.financeiro''])]"


section \<open>The permission check (modules/auth.py)\<close>

text \<open>\<open>s.startswith(pre)\<close>.\<close>

definition startswith :: "string \<Rightarrow> string \<Rightarrow> bool" where
  "startswith s pre = (take (length pre) s = pre)"

text \<open>\<open>permissao.split('.')[0]\<close>: the text before the first dot, all of it when there is none.\<close>

definition primeiro_segmento :: "string \<Rightarrow> string" where
  "primeiro_segmento permissao = takeWhile (\<lambda>c. c \<noteq> CHR ''.'') permissao"

text \<open>The loop \<open>for p in permissoes: if p.startswith(...): return True\<close>, then \<open>return False\<close>.\<close>

fun permissao_parcial :: "string list \<Rightarrow> string \<Rightarrow> bool" where
  "permissao_parcial [] permissao = False"
| "permissao_parcial (p # ps) permissao =
     (if startswith p (primeiro_segmento permissao) then True
      else permissao_parcial ps permissao)"

text \<open>
  \<open>tem_permissao(usuario, permissao)\<close>. The user is \<open>None\<close> or a dictionary; \<open>not usuario\<close>
  holds for \<open>None\<close> and for the empty dictionary. A profile value that is not a text is
  not a key of \<open>PERFIS\<close>.
\<close>

definition tem_permissao :: "pydict option \<Rightarrow> string \<Rightarrow> bool" where
  "tem_permissao usuario permissao =
     (case usuario of
        None \<Rightarrow> False
      | Some u \<Rightarrow>
          if u = [] then False
          else (case dget_or u ''perfil'' (VText []) of
                  VText perfil \<Rightarrow>
                    (case map_of PERFIS perfil of
                       None \<Rightarrow> False
                     | Some permissoes \<Rightarrow>
                         if ''*'' \<in> set permissoes then True
                         else if permissao \<in> set permissoes then True
                         else permissao_parcial permissoes permissao)
                | _ \<Rightarrow> False))"

text \<open>
  The rule in the words of the specification: the wildcard, the exact string, or an entry
  with the same first dot-segment as the request.
\<close>

definition concede_spec :: "string list \<Rightarrow> string \<Rightarrow> bool" where
  "concede_spec permissoes permissao =
     (''*'' \<in> set permissoes \<or> permissao \<in> set permissoes \<or>
      list_ex (\<lambda>p. primeiro_segmento p = primeiro_segmento permissao) permissoes)"

text \<open>The permission list of a profile, empty for an unknown profile.\<close>

definition permissoes_de :: "string \<Rightarrow> string list" where
  "permissoes_de perfil = (case map_of PERFIS perfil of None \<Rightarrow> [] | Some ps \<Rightarrow> ps)"

text \<open>A logged-in user of a given profile, as the session holds it.\<close>

definition usuario_de_perfil :: "string \<Rightarrow> pydict" where
  "usuario_de_perfil perfil = [(''id'', VInt 1), (''igreja_id'', VInt 1), (''perfil'', VText perfil)]"

section \<open>Session, clock and database\<close>

text \<open>
  Exceptions that the modelled functions can meet: Python's own (\<open>usuario['id']\<close> on
  \<open>None\<close> is a TypeError, \<open>usuario.get\<close> on \<open>None\<close> an AttributeError, a missing key a
  KeyError, a date out of range an OverflowError) and SQLite's (an unknown column or a
  malformed statement is an OperationalError, a violated NOT NULL an IntegrityError).
\<close>

datatype erro = TypeError | AttributeError | KeyError | OverflowError
  | OperationalError | IntegrityError

text \<open>
  What a call reads from outside the database: the session (\<open>st.session_state\<close>), the
  clock, and whether the engine rejects the insert into the access log. \<open>hoje\<close> is the day
  ordinal of \<open>date.today()\<close>, \<open>hoje_dia\<close> its day of the month, \<open>hoje_dia_ano\<close> its day of the
  year; \<open>agora\<close> is the text SQLite receives for \<open>datetime.now()\<close>. One call reads one
  clock value: a call running across midnight is not modelled.
\<close>

record ctx =
  sess_usuario :: "pydict option"
  sess_igreja_id :: val
  hoje :: int
  hoje_dia :: int
  hoje_dia_ano :: int
  agora :: string
  log_falha :: bool

definition get_usuario_atual :: "ctx \<Rightarrow> pydict option" where
  "get_usuario_atual c = sess_usuario c"

definition get_igreja_id :: "ctx \<Rightarrow> val" where
  "get_igreja_id c = sess_igreja_id c"

text \<open>
  Rows of the tables other than \<open>pessoas\<close> are records after the columns of the schema
  (database/db.py); a nullable column is an option. A DATE column holds a day ordinal,
  which stands for the ISO text SQLite stores and orders the same way. Amounts (REAL) are
  exact numbers: the rounding of binary floating point is not modelled.
\<close>

record linha_familia =
  fam_id :: int
  fam_igreja_id :: int
  fam_nome :: string

record linha_tag =
  tag_id :: int
  tag_igreja_id :: int
  tag_nome :: string

record linha_pessoa_tag =
  pt_pessoa_id :: int
  pt_tag_id :: int

record linha_visita =
  v_id :: int
  v_pessoa_id :: int
  v_evento_id :: "int option"
  v_data_visita :: int
  v_tipo_culto :: "string option"
  v_como_conheceu :: "string option"
  v_responsavel_recepcao_id :: val

record linha_followup =
  f_id :: int
  f_pessoa_id :: int
  f_tipo :: string
  f_status :: "string option"
  f_data_prevista :: "int option"
  f_data_realizada :: "string option"
  f_responsavel_id :: val
  f_observacoes :: "string option"
  f_resultado :: "string option"

record linha_fluxo =
  fl_id :: int
  fl_igreja_id :: int
  fl_nome :: string
  fl_trigger_evento :: "string option"
  fl_dias_apos_trigger :: "int option"
  fl_template_mensagem :: "string option"
  fl_ativo :: "int option"

record linha_doacao =
  d_id :: int
  d_igreja_id :: int
  d_pessoa_id :: "int option"
  d_tipo :: string
  d_valor :: real
  d_data :: int
  d_anonimo :: "int option"

record linha_aconselhamento =
  a_id :: int
  a_igreja_id :: int
  a_pessoa_id :: int
  a_conselheiro_id :: int
  a_data_atendimento :: string
  a_tipo :: "string option"
  a_resumo_criptografado :: "string option"
  a_notas_criptografadas :: "string option"
  a_status :: "string option"
  a_proximo_encontro :: "string option"

record linha_log =
  l_usuario_id :: val
  l_igreja_id :: val
  l_acao :: string

record banco =
  pessoas :: "linha list"
  familias :: "linha_familia list"
  tags :: "linha_tag list"
  pessoa_tags :: "linha_pessoa_tag list"
  visitas :: "linha_visita list"
  followup :: "linha_followup list"
  fluxos_followup :: "linha_fluxo list"
  doacoes :: "linha_doacao list"
  aconselhamentos :: "linha_aconselhamento list"
  logs_acesso :: "linha_log list"

text \<open>
  \<open>get_connection\<close> commits when its block ends and rolls back, then raises again, when
  the block raises. So a function returns its outcome together with the database as
  committed afterwards: after an exception inside the block that database holds none of
  the block's own writes, but it keeps what a nested call committed on its own connection.
  Every statement is taken to be accepted by the engine, apart from the log insert (see
  \<open>log_falha\<close>); contention between the nested connections is not modelled.
\<close>

text \<open>SQL \<open>=\<close>: never true when a side is NULL.\<close>

definition sql_eq :: "val \<Rightarrow> val \<Rightarrow> bool" where
  "sql_eq a b = (a \<noteq> VNone \<and> b \<noteq> VNone \<and> a = b)"

text \<open>The next AUTOINCREMENT key of a table whose keys are \<open>ids\<close>.\<close>

definition proximo_id :: "int list \<Rightarrow> int" where
  "proximo_id ids = fold max ids 0 + 1"

text \<open>
  \<open>registrar_log\<close> (modules/auth.py): inserts one row on a connection of its own and
  swallows any exception, so it returns nothing and never raises. The free text
  \<open>detalhes\<close> and the \<open>ip\<close> are not kept.
\<close>

definition registrar_log :: "ctx \<Rightarrow> val \<Rightarrow> val \<Rightarrow> string \<Rightarrow> banco \<Rightarrow> banco" where
  "registrar_log c usuario_id igreja_id acao db =
     (if log_falha c then db
      else db\<lparr>logs_acesso := logs_acesso db @
             [\<lparr>l_usuario_id = usuario_id, l_igreja_id = igreja_id, l_acao = acao\<rparr>]\<rparr>)"

text \<open>
  \<open>usuario['id']\<close> for the session's user: a TypeError when nobody is logged in, a
  KeyError when the dictionary has no such key.
\<close>

definition usuario_id_de :: "pydict option \<Rightarrow> erro + val" where
  "usuario_id_de usuario =
     (case usuario of
        None \<Rightarrow> Inl TypeError
      | Some u \<Rightarrow> (case map_of u ''id'' of None \<Rightarrow> Inl KeyError | Some v \<Rightarrow> Inr v))"


section \<open>People (modules/pessoas.py)\<close>




text \<open>\<open>SET k1 = v1, k2 = v2, ...\<close> on one row, and Python's \<open>d[k] = v\<close> on a dictionary.\<close>

definition atualiza :: "linha \<Rightarrow> (string \<times> val) list \<Rightarrow> linha" where
  "atualiza r campos = fold (\<lambda>(k, v). AList.update k v) campos r"

text \<open>\<open>WHERE id = ? AND igreja_id = ?\<close>.\<close>

definition casa_pessoa :: "val \<Rightarrow> val \<Rightarrow> linha \<Rightarrow> bool" where
  "casa_pessoa pid ig r = (sql_eq (dget r ''id'') pid \<and> sql_eq (dget r ''igreja_id'') ig)"





text \<open>
  \<open>excluir_pessoa(pessoa_id)\<close>: the soft delete. The whole body is inside
  \<open>try ... except Exception\<close>, which prints and returns \<open>False\<close>; the connection has then
  rolled the update back.
\<close>

definition excluir_pessoa :: "ctx \<Rightarrow> int \<Rightarrow> banco \<Rightarrow> bool \<times> banco" where
  "excluir_pessoa c pessoa_id db =
     (let igreja_id = get_igreja_id c; usuario = get_usuario_atual c;
          alvo = casa_pessoa (VInt pessoa_id) igreja_id in
      if \<not> list_ex alvo (pessoas db) then (False, db)
      else (case usuario_id_de usuario of
              Inl e \<Rightarrow> (False, db)
            | Inr uid \<Rightarrow>
                (True,
                 registrar_log c uid igreja_id ''pessoa.excluir''
                   (db\<lparr>pessoas :=
                      map (\<lambda>r. if alvo r
                                then atualiza r [(''ativo'', VInt 0),
                                                 (''data_atualizacao'', VText (agora c))]
                                else r) (pessoas db)\<rparr>))))"

text \<open>\<open>LEFT JOIN familias f ON p.familia_id = f.id\<close>, read as \<open>f.nome\<close>.\<close>

definition familia_nome_de :: "banco \<Rightarrow> linha \<Rightarrow> val" where
  "familia_nome_de db p =
     (case filter (\<lambda>f. sql_eq (dget p ''familia_id'') (VInt (fam_id f))) (familias db) of
        [] \<Rightarrow> VNone
      | f # _ \<Rightarrow> VText (fam_nome f))"

text \<open>
  \<open>get_pessoa(pessoa_id)\<close>: the row of that id in the caller's church with the name of
  its family, \<open>None\<close> when there is none. It does not look at \<open>ativo\<close>.
\<close>

definition get_pessoa :: "ctx \<Rightarrow> int \<Rightarrow> banco \<Rightarrow> pydict option" where
  "get_pessoa c pessoa_id db =
     (case filter (casa_pessoa (VInt pessoa_id) (get_igreja_id c)) (pessoas db) of
        [] \<Rightarrow> None
      | p # _ \<Rightarrow> Some (p @ [(''familia_nome'', familia_nome_de db p)]))"

text \<open>
  SQLite's \<open>LIKE\<close>: \<open>%\<close> stands for any run of characters, \<open>_\<close> for one character,
  and ASCII letters match without regard to case. Characters are bytes here.
\<close>

definition ascii_lower :: "char \<Rightarrow> char" where
  "ascii_lower ch =
     (let n = (of_char ch :: nat) in if 65 \<le> n \<and> n \<le> 90 then char_of (n + 32) else ch)"

fun like_match :: "string \<Rightarrow> string \<Rightarrow> bool" where
  "like_match [] s = (s = [])"
| "like_match (p # ps) [] = (p = CHR ''%'' \<and> like_match ps [])"
| "like_match (p # ps) (ch # cs) =
     (if p = CHR ''%'' then like_match ps (ch # cs) \<or> like_match (p # ps) cs
      else (p = CHR ''_'' \<or> ascii_lower p = ascii_lower ch) \<and> like_match ps cs)"

text \<open>
  \<open>coluna LIKE ?\<close> on a text column: NULL never matches, and a column of TEXT affinity
  holds no integer.
\<close>

definition sql_like :: "val \<Rightarrow> string \<Rightarrow> bool" where
  "sql_like v padrao = (case v of VText s \<Rightarrow> like_match padrao s | _ \<Rightarrow> False)"

text \<open>
  The filters of \<open>get_pessoas\<close> as the listing page builds them: a key that is missing
  or \<open>None\<close> is \<open>None\<close> here. A filter applies when its value is truthy.
\<close>

record filtros_pessoas =
  fp_status :: "string option"
  fp_busca :: "string option"
  fp_tag_id :: "int option"

text \<open>The part of the WHERE clause that the filters add, each conjunct joined by AND.\<close>

definition passa_filtros :: "banco \<Rightarrow> filtros_pessoas option \<Rightarrow> linha \<Rightarrow> bool" where
  "passa_filtros db filtros p =
     (case filtros of
        None \<Rightarrow> True
      | Some f \<Rightarrow>
          (case fp_status f of
             None \<Rightarrow> True
           | Some s \<Rightarrow> s \<noteq> [] \<longrightarrow> sql_eq (dget p ''status'') (VText s)) \<and>
          (case fp_busca f of
             None \<Rightarrow> True
           | Some b \<Rightarrow> b \<noteq> [] \<longrightarrow>
               (let busca = ''%'' @ b @ ''%'' in
                sql_like (dget p ''nome'') busca \<or> sql_like (dget p ''email'') busca
                \<or> sql_like (dget p ''celular'') busca)) \<and>
          (case fp_tag_id f of
             None \<Rightarrow> True
           | Some t \<Rightarrow> t \<noteq> 0 \<longrightarrow>
               list_ex (\<lambda>pt. sql_eq (dget p ''id'') (VInt (pt_pessoa_id pt)) \<and>
                              pt_tag_id pt = t) (pessoa_tags db)))"

text \<open>\<open>GROUP_CONCAT(DISTINCT t.nome)\<close> over the tag rows joined to the person.\<close>

fun junta :: "string list \<Rightarrow> string" where
  "junta [] = []"
| "junta [x] = x"
| "junta (x # y # ys) = x @ '','' @ junta (y # ys)"

definition tags_de :: "banco \<Rightarrow> filtros_pessoas option \<Rightarrow> linha \<Rightarrow> val" where
  "tags_de db filtros p =
     (let com_filtro = (case filtros of None \<Rightarrow> None | Some f \<Rightarrow> fp_tag_id f);
          pts = filter (\<lambda>pt. sql_eq (dget p ''id'') (VInt (pt_pessoa_id pt)) \<and>
                              (case com_filtro of
                                 None \<Rightarrow> True
                               | Some t \<Rightarrow> t \<noteq> 0 \<longrightarrow> pt_tag_id pt = t))
                  (pessoa_tags db);
          nomes = remdups (concat (map (\<lambda>pt. map tag_nome
                     (filter (\<lambda>t. tag_id t = pt_tag_id pt) (tags db))) pts))
      in if nomes = [] then VNone else VText (junta nomes))"

definition nome_de :: "linha \<Rightarrow> string" where
  "nome_de r = (case dget r ''nome'' of VText s \<Rightarrow> s | _ \<Rightarrow> [])"

text \<open>
  \<open>get_pessoas(filtros)\<close>: the people of the caller's church whose \<open>ativo\<close> is NULL or
  1 and who pass the filters, one result per person, ordered by name (\<open>nome\<close> is TEXT NOT
  NULL; rows of equal name keep the table's order here).
\<close>

definition get_pessoas :: "ctx \<Rightarrow> filtros_pessoas option \<Rightarrow> banco \<Rightarrow> pydict list" where
  "get_pessoas c filtros db =
     (let linhas = filter (\<lambda>p. sql_eq (dget p ''igreja_id'') (get_igreja_id c) \<and>
                                (dget p ''ativo'' = VNone \<or> sql_eq (dget p ''ativo'') (VInt 1)) \<and>
                                passa_filtros db filtros p) (pessoas db)
      in map (\<lambda>p. p @ [(''familia_nome'', familia_nome_de db p),
                         (''tags'', tags_de db filtros p)])
           (sort_key nome_de linhas))"


section \<open>Visits and follow-ups (modules/visitantes.py)\<close>

text \<open>
  \<open>date.today() + timedelta(days=n)\<close> on day ordinals. A NULL offset is a TypeError; an
  offset beyond \<open>timedelta\<close>'s range, or a result outside years 1 to 9999, is an
  OverflowError.
\<close>

definition soma_dias :: "int \<Rightarrow> int option \<Rightarrow> erro + int" where
  "soma_dias d n =
     (case n of
        None \<Rightarrow> Inl TypeError
      | Some k \<Rightarrow>
          if k < - 999999999 \<or> 999999999 < k \<or> d + k < 1 \<or> 3652059 < d + k
          then Inl OverflowError
          else Inr (d + k))"

text \<open>
  The row that \<open>INSERT INTO followup (pessoa_id, tipo, data_prevista, observacoes)\<close>
  creates: the other columns take their defaults, \<open>status\<close> being \<open>'pendente'\<close>.
\<close>

definition novo_followup ::
  "int \<Rightarrow> int \<Rightarrow> string \<Rightarrow> int \<Rightarrow> string option \<Rightarrow> linha_followup" where
  "novo_followup novo pessoa_id tipo data_prevista observacoes =
     \<lparr>f_id = novo, f_pessoa_id = pessoa_id, f_tipo = tipo, f_status = Some ''pendente'',
      f_data_prevista = Some data_prevista, f_data_realizada = None,
      f_responsavel_id = VNone, f_observacoes = observacoes, f_resultado = None\<rparr>"

text \<open>The loop \<open>for fluxo in fluxos\<close>: it stops at the first exception.\<close>

fun insere_followups ::
  "int \<Rightarrow> int \<Rightarrow> linha_fluxo list \<Rightarrow> linha_followup list \<Rightarrow> erro + linha_followup list" where
  "insere_followups hj pessoa_id [] tabela = Inr tabela"
| "insere_followups hj pessoa_id (fluxo # fluxos) tabela =
     (case soma_dias hj (fl_dias_apos_trigger fluxo) of
        Inl e \<Rightarrow> Inl e
      | Inr data_prevista \<Rightarrow>
          insere_followups hj pessoa_id fluxos
            (tabela @ [novo_followup (proximo_id (map f_id tabela)) pessoa_id (fl_nome fluxo)
                         data_prevista (fl_template_mensagem fluxo)]))"












section \<open>Donations (modules/financeiro.py)\<close>







section \<open>Counseling records and their encryption (database/db.py, modules/aconselhamento.py)\<close>

text \<open>
  The functions of \<open>hashlib\<close>, \<open>base64\<close> and \<open>cryptography.fernet\<close> are parameters,
  with the secret that \<open>SECRET_KEY\<close> reads from the environment. \<open>Fernet.encrypt\<close> draws
  a timestamp and an initialisation vector, given here as a number; \<open>Fernet.decrypt\<close>
  raises on a text that is no valid token, which is \<open>None\<close> here. A text is held as its
  UTF-8 bytes, so \<open>encode\<close> and \<open>decode\<close> do not appear.
\<close>

record biblioteca =
  lib_secret_key :: string
  lib_sha256 :: "string \<Rightarrow> string"
  lib_urlsafe_b64encode :: "string \<Rightarrow> string"
  lib_fernet_encrypt :: "string \<Rightarrow> nat \<Rightarrow> string \<Rightarrow> string"
  lib_fernet_decrypt :: "string \<Rightarrow> string \<Rightarrow> string option"

text \<open>
  What the library promises: a token is never the empty text, and decrypting a token
  under the key that made it gives the plaintext back.
\<close>

definition contrato_fernet :: "biblioteca \<Rightarrow> bool" where
  "contrato_fernet L =
     (\<forall>k n x. lib_fernet_encrypt L k n x \<noteq> [] \<and>
              lib_fernet_decrypt L k (lib_fernet_encrypt L k n x) = Some x)"

definition get_encryption_key :: "biblioteca \<Rightarrow> string" where
  "get_encryption_key L = lib_urlsafe_b64encode L (lib_sha256 L (lib_secret_key L))"

text \<open>\<open>encrypt_data(data)\<close>: \<open>None\<close> and the empty text are returned as they are.\<close>

definition encrypt_data :: "biblioteca \<Rightarrow> nat \<Rightarrow> string option \<Rightarrow> string option" where
  "encrypt_data L n data =
     (case data of
        None \<Rightarrow> None
      | Some s \<Rightarrow> if s = [] then Some s
                  else Some (lib_fernet_encrypt L (get_encryption_key L) n s))"

text \<open>
  \<open>decrypt_data(data)\<close>: the bare \<open>except\<close> returns the stored text itself when it
  cannot be decrypted.
\<close>

definition decrypt_data :: "biblioteca \<Rightarrow> string option \<Rightarrow> string option" where
  "decrypt_data L data =
     (case data of
        None \<Rightarrow> None
      | Some s \<Rightarrow> if s = [] then Some s
                  else (case lib_fernet_decrypt L (get_encryption_key L) s of
                          None \<Rightarrow> Some s
                        | Some claro \<Rightarrow> Some claro))"

text \<open>
  The dictionary given to \<open>registrar_aconselhamento\<close>: the three keys it indexes are
  fields, the keys it reads with \<open>get\<close> are options (\<open>None\<close> for a missing key).
\<close>

record dados_aconselhamento =
  da_pessoa_id :: int
  da_conselheiro_id :: int
  da_data_atendimento :: string
  da_tipo :: "string option"
  da_resumo :: "string option"
  da_notas :: "string option"
  da_status :: "string option"
  da_proximo_encontro :: "string option"

definition texto_truthy :: "string option \<Rightarrow> bool" where
  "texto_truthy s = (case s of None \<Rightarrow> False | Some t \<Rightarrow> t \<noteq> [])"

text \<open>
  \<open>registrar_aconselhamento(dados)\<close>: summary and notes are encrypted before the insert,
  each with its own draw, and stored as NULL when empty or missing. \<open>igreja_id\<close> is NOT
  NULL and the session holds an integer or nothing.
\<close>

definition registrar_aconselhamento ::
  "ctx \<Rightarrow> biblioteca \<Rightarrow> nat \<Rightarrow> nat \<Rightarrow> dados_aconselhamento \<Rightarrow> banco \<Rightarrow> (erro + int) \<times> banco" where
  "registrar_aconselhamento c L n1 n2 dados db =
     (let igreja_id = get_igreja_id c; usuario = get_usuario_atual c;
          resumo_cripto = (if texto_truthy (da_resumo dados)
                           then encrypt_data L n1 (da_resumo dados) else None);
          notas_cripto = (if texto_truthy (da_notas dados)
                          then encrypt_data L n2 (da_notas dados) else None);
          novo = proximo_id (map a_id (aconselhamentos db))
      in case igreja_id of
           VInt ig \<Rightarrow>
             (case usuario_id_de usuario of
                Inl e \<Rightarrow> (Inl e, db)
              | Inr uid \<Rightarrow>
                  (Inr novo,
                   registrar_log c uid igreja_id ''aconselhamento.criar''
                     (db\<lparr>aconselhamentos := aconselhamentos db @
                          [\<lparr>a_id = novo, a_igreja_id = ig, a_pessoa_id = da_pessoa_id dados,
                            a_conselheiro_id = da_conselheiro_id dados,
                            a_data_atendimento = da_data_atendimento dados,
                            a_tipo = da_tipo dados,
                            a_resumo_criptografado = resumo_cripto,
                            a_notas_criptografadas = notas_cripto,
                            a_status = (case da_status dados of
                                          None \<Rightarrow> Some ''em_andamento'' | Some s \<Rightarrow> Some s),
                            a_proximo_encontro = da_proximo_encontro dados\<rparr>]\<rparr>)))
         | _ \<Rightarrow> (Inl IntegrityError, db))"

text \<open>
  What \<open>get_aconselhamento_detalhes\<close> returns: the row, the two joined names, and the
  keys \<open>resumo\<close> and \<open>notas\<close>, present only when the stored text is not empty.
\<close>

record detalhes_aconselhamento =
  det_linha :: linha_aconselhamento
  det_pessoa_nome :: val
  det_conselheiro_nome :: val
  det_resumo :: "string option"
  det_notas :: "string option"

definition pessoas_de_id :: "banco \<Rightarrow> int \<Rightarrow> linha list" where
  "pessoas_de_id db i = filter (\<lambda>p. sql_eq (dget p ''id'') (VInt i)) (pessoas db)"

text \<open>
  \<open>get_aconselhamento_detalhes(aconselhamento_id)\<close>: the record of that id in the
  caller's church, joined to its person and its counselor; a leader sees only the records
  where they are the counselor. Reading is logged.
\<close>

definition get_aconselhamento_detalhes ::
  "ctx \<Rightarrow> biblioteca \<Rightarrow> int \<Rightarrow> banco \<Rightarrow> (erro + detalhes_aconselhamento option) \<times> banco" where
  "get_aconselhamento_detalhes c L aconselhamento_id db =
     (let igreja_id = get_igreja_id c; usuario = get_usuario_atual c;
          linhas = concat (map (\<lambda>a. concat (map (\<lambda>p. map (\<lambda>k. (a, p, k))
                                    (pessoas_de_id db (a_conselheiro_id a)))
                                  (pessoas_de_id db (a_pessoa_id a))))
                     (filter (\<lambda>a. a_id a = aconselhamento_id \<and>
                                   sql_eq (VInt (a_igreja_id a)) igreja_id)
                        (aconselhamentos db)))
      in case linhas of
           [] \<Rightarrow> (Inr None, db)
         | (a, p, k) # _ \<Rightarrow>
             (case usuario of
                None \<Rightarrow> (Inl TypeError, db)
              | Some u \<Rightarrow>
                  (case map_of u ''perfil'' of
                     None \<Rightarrow> (Inl KeyError, db)
                   | Some perfil \<Rightarrow>
                       if perfil = VText ''LIDER'' \<and>
                          VInt (a_conselheiro_id a) \<noteq> dget u ''pessoa_id''
                       then (Inr None, db)
                       else (case usuario_id_de usuario of
                               Inl e \<Rightarrow> (Inl e, db)
                             | Inr uid \<Rightarrow>
                                 (Inr (Some
                                    \<lparr>det_linha = a, det_pessoa_nome = dget p ''nome'',
                                     det_conselheiro_nome = dget k ''nome'',
                                     det_resumo =
                                       (if texto_truthy (a_resumo_criptografado a)
                                        then decrypt_data L (a_resumo_criptografado a)
                                        else None),
                                     det_notas =
                                       (if texto_truthy (a_notas_criptografadas a)
                                        then decrypt_data L (a_notas_criptografadas a)
                                        else None)\<rparr>),
                                  registrar_log c uid igreja_id
                                    ''aconselhamento.visualizar'' db)))))"

text \<open>
  The demonstration data (\<open>popular_dados_demonstracao\<close>, database/db.py): the body of
  its counseling loop, with the random draws as arguments. The summary it binds to
  \<open>resumo_criptografado\<close> is a fixed sentence, given to the statement as it is.
\<close>

definition resumo_demo :: string where
  "resumo_demo = ''Atendimento pastoral realizado conforme solicita''
     @ [char_of (195::nat), char_of (167::nat), char_of (195::nat), char_of (163::nat)] @ ''o.''"

definition semear_aconselhamento ::
  "int \<Rightarrow> int \<Rightarrow> string \<Rightarrow> string \<Rightarrow> string \<Rightarrow> banco \<Rightarrow> banco" where
  "semear_aconselhamento pessoa conselheiro data_atendimento tipo status db =
     db\<lparr>aconselhamentos := aconselhamentos db @
          [\<lparr>a_id = proximo_id (map a_id (aconselhamentos db)), a_igreja_id = 1,
            a_pessoa_id = pessoa, a_conselheiro_id = conselheiro,
            a_data_atendimento = data_atendimento, a_tipo = Some tipo,
            a_resumo_criptografado = Some resumo_demo, a_notas_criptografadas = None,
            a_status = Some status, a_proximo_encontro = None\<rparr>]\<rparr>"


section \<open>Example data\<close>

text \<open>A logged-in administrator of church 1 and a small database, used to run the model.\<close>

definition ctx_exemplo :: ctx where
  "ctx_exemplo =
     \<lparr>sess_usuario = Some [(''id'', VInt 1), (''igreja_id'', VInt 1),
                           (''perfil'', VText ''ADMIN''), (''pessoa_id'', VInt 1)],
      sess_igreja_id = VInt 1, hoje = 739924, hoje_dia = 4, hoje_dia_ano = 308,
      agora = ''2026-11-04 10:00:00'', log_falha = False\<rparr>"

definition ana :: linha where
  "ana = [(''id'', VInt 1), (''igreja_id'', VInt 1), (''nome'', VText ''Ana''),
          (''status'', VText ''membro''), (''ativo'', VInt 1)]"

definition bruno :: linha where
  "bruno = [(''id'', VInt 2), (''igreja_id'', VInt 1), (''nome'', VText ''Bruno''),
            (''status'', VText ''visitante''), (''ativo'', VInt 1)]"

definition banco_exemplo :: banco where
  "banco_exemplo =
     \<lparr>pessoas = [bruno, ana], familias = [], tags = [], pessoa_tags = [], visitas = [],
      followup =
        [\<lparr>f_id = 1, f_pessoa_id = 2, f_tipo = ''ligacao'', f_status = Some ''realizado'',
          f_data_prevista = Some 739920, f_data_realizada = None, f_responsavel_id = VInt 1,
          f_observacoes = None, f_resultado = None\<rparr>,
         \<lparr>f_id = 2, f_pessoa_id = 2, f_tipo = ''mensagem'', f_status = Some ''pendente'',
          f_data_prevista = Some 739930, f_data_realizada = None, f_responsavel_id = VNone,
          f_observacoes = None, f_resultado = None\<rparr>],
      fluxos_followup =
        [\<lparr>fl_id = 1, fl_igreja_id = 1, fl_nome = ''Boas-vindas 24h'',
          fl_trigger_evento = Some ''primeira_visita'', fl_dias_apos_trigger = Some 1,
          fl_template_mensagem = Some ''Foi uma alegria ter voce conosco!'',
          fl_ativo = Some 1\<rparr>,
         \<lparr>fl_id = 2, fl_igreja_id = 1, fl_nome = ''Follow-up 30 dias'',
          fl_trigger_evento = Some ''primeira_visita'', fl_dias_apos_trigger = Some 30,
          fl_template_mensagem = Some ''Ligar e verificar interesse'', fl_ativo = Some 1\<rparr>,
         \<lparr>fl_id = 3, fl_igreja_id = 1, fl_nome = ''Aniversario'',
          fl_trigger_evento = Some ''aniversario'', fl_dias_apos_trigger = Some 0,
          fl_template_mensagem = None, fl_ativo = Some 1\<rparr>],
      doacoes =
        [\<lparr>d_id = 1, d_igreja_id = 1, d_pessoa_id = Some 1, d_tipo = ''Oferta'', d_valor = 50,
          d_data = 739924, d_anonimo = Some 0\<rparr>,
         \<lparr>d_id = 2, d_igreja_id = 1, d_pessoa_id = Some 1, d_tipo = ''Outro'', d_valor = 200,
          d_data = 739923, d_anonimo = Some 0\<rparr>,
         \<lparr>d_id = 3, d_igreja_id = 1, d_pessoa_id = None, d_tipo = ''Oferta'', d_valor = 25,
          d_data = 739922, d_anonimo = Some 1\<rparr>,
         \<lparr>d_id = 4, d_igreja_id = 1, d_pessoa_id = Some 2, d_tipo = ''Oferta'', d_valor = 10,
          d_data = 739900, d_anonimo = Some 0\<rparr>,
         \<lparr>d_id = 5, d_igreja_id = 2, d_pessoa_id = None, d_tipo = ''Oferta'', d_valor = 999,
          d_data = 739924, d_anonimo = Some 1\<rparr>],
      aconselhamentos = [], logs_acesso = []\<rparr>"


text \<open>
  A stand-in for the library, to run the model: it meets the contract and rejects a text
  that is no token of its own. It is no cipher.
\<close>

definition lib_exemplo :: biblioteca where
  "lib_exemplo =
     \<lparr>lib_secret_key = ''sua-chave-secreta-aqui-mude-em-producao'',
      lib_sha256 = (\<lambda>s. s),
      lib_urlsafe_b64encode = (\<lambda>s. s),
      lib_fernet_encrypt = (\<lambda>k n x. ''gAAAAA'' @ rev x),
      lib_fernet_decrypt =
        (\<lambda>k s. if take 6 s = ''gAAAAA'' then Some (rev (drop 6 s)) else None)\<rparr>"

definition dados_exemplo :: dados_aconselhamento where
  "dados_exemplo =
     \<lparr>da_pessoa_id = 2, da_conselheiro_id = 1, da_data_atendimento = ''2026-11-04 09:00:00'',
      da_tipo = Some ''Espiritual'', da_resumo = Some ''Conversa sobre a familia'',
      da_notas = None, da_status = None, da_proximo_encontro = None\<rparr>"

section \<open>Properties of the permission check\<close>

lemma permissao_parcial_iff:
  "permissao_parcial ps permissao =
     (\<exists>p \<in> set ps. startswith p (primeiro_segmento permissao))"
  by (induction ps) auto

lemma take_length_takeWhile: "take (length (takeWhile P xs)) xs = takeWhile P xs"
  by (induction xs) simp_all

lemma startswith_primeiro_segmento: "startswith p (primeiro_segmento p)"
  by (simp add: startswith_def primeiro_segmento_def take_length_takeWhile)

lemma tem_permissao_perfil:
  assumes "map_of u ''perfil'' = Some (VText perfil)"
    and "map_of PERFIS perfil = Some permissoes"
  shows "tem_permissao (Some u) permissao =
           (''*'' \<in> set permissoes \<or> permissao \<in> set permissoes \<or>
            (\<exists>p \<in> set permissoes. startswith p (primeiro_segmento permissao)))"
proof -
  from assms(1) have "u \<noteq> []" by auto
  with assms show ?thesis
    by (simp add: tem_permissao_def dget_or_def permissao_parcial_iff)
qed

text \<open>
  C1 (as amended). For a user whose profile is a key of \<open>PERFIS\<close>, the check grants
  exactly when the profile's list holds the wildcard, holds the requested string, or holds
  an entry whose text starts with the request's first dot-segment. The third case is a plain
  text prefix: the entry need not have the same first segment as the request.
\<close>

theorem C1_tem_permissao_prefixo:
  assumes "map_of u ''perfil'' = Some (VText perfil)"
    and "map_of PERFIS perfil = Some permissoes"
  shows "tem_permissao (Some u) permissao =
           (''*'' \<in> set permissoes \<or> permissao \<in> set permissoes \<or>
            (\<exists>p \<in> set permissoes. startswith p (primeiro_segmento permissao)))"
  using assms by (rule tem_permissao_perfil)

theorem C1_tem_permissao_prefixo_witness:
  "map_of (usuario_de_perfil ''FINANCEIRO'') ''perfil'' = Some (VText ''FINANCEIRO'') \<and>
   map_of PERFIS ''FINANCEIRO'' = Some (permissoes_de ''FINANCEIRO'') \<and>
   tem_permissao (Some (usuario_de_perfil ''FINANCEIRO'')) ''doacoes.excluir'' = True \<and>
   tem_permissao (Some (usuario_de_perfil ''FINANCEIRO'')) ''eventos.ver'' = False"
proof -
  have h1: "map_of (usuario_de_perfil ''FINANCEIRO'') ''perfil'' = Some (VText ''FINANCEIRO'')"
    by (simp add: usuario_de_perfil_def)
  have h2: "map_of PERFIS ''FINANCEIRO'' = Some (permissoes_de ''FINANCEIRO'')"
    by (simp add: PERFIS_def permissoes_de_def)
  have ps: "permissoes_de ''FINANCEIRO'' =
      [''pessoas.ver'', ''doacoes.ver'', ''doacoes.editar'', ''relatorios.financeiro'',
       ''dashboard.financeiro'']"
    by (simp add: PERFIS_def permissoes_de_def)
  have a: "tem_permissao (Some (usuario_de_perfil ''FINANCEIRO'')) ''doacoes.excluir'' = True"
    unfolding C1_tem_permissao_prefixo [OF h1 h2] ps
    by (simp add: startswith_def primeiro_segmento_def)
  have b: "tem_permissao (Some (usuario_de_perfil ''FINANCEIRO'')) ''eventos.ver'' = False"
    unfolding C1_tem_permissao_prefixo [OF h1 h2] ps
    by (simp add: startswith_def primeiro_segmento_def)
  from h1 h2 a b show ?thesis by simp
qed

text \<open>
  C1 (as stated) fails: the FINANCEIRO profile has no wildcard, no entry \<open>p.x\<close> and no
  entry whose first segment is \<open>p\<close>, yet the request \<open>p.x\<close> is granted, because
  \<open>pessoas.ver\<close> starts with \<open>p\<close>.
\<close>

theorem C1_segmento_counterexample:
  "tem_permissao (Some (usuario_de_perfil ''FINANCEIRO'')) ''p.x'' = True \<and>
   concede_spec (permissoes_de ''FINANCEIRO'') ''p.x'' = False"
  by (simp add: tem_permissao_def usuario_de_perfil_def dget_or_def PERFIS_def permissoes_de_def
      concede_spec_def startswith_def primeiro_segmento_def)

text \<open>
  C2. For a user with a known profile, an entry of the profile's list that starts with the
  first dot-segment of the request is enough for the check to grant. So the FINANCEIRO
  profile, whose entries of the \<open>doacoes\<close> module are \<open>doacoes.ver\<close> and
  \<open>doacoes.editar\<close> only, is granted \<open>doacoes.excluir\<close> and every request
  \<open>doacoes.<action>\<close>.
\<close>

theorem C2_prefixo_concede_modulo:
  "(map_of u ''perfil'' = Some (VText perfil) \<and> map_of PERFIS perfil = Some permissoes \<and>
    p \<in> set permissoes \<and> startswith p (primeiro_segmento permissao)
      \<longrightarrow> tem_permissao (Some u) permissao) \<and>
   filter (\<lambda>e. startswith e ''doacoes'') (permissoes_de ''FINANCEIRO'') =
      [''doacoes.ver'', ''doacoes.editar''] \<and>
   tem_permissao (Some (usuario_de_perfil ''FINANCEIRO'')) ''doacoes.excluir'' \<and>
   tem_permissao (Some (usuario_de_perfil ''FINANCEIRO'')) (''doacoes.'' @ acao)"
proof -
  have h1: "map_of (usuario_de_perfil ''FINANCEIRO'') ''perfil'' = Some (VText ''FINANCEIRO'')"
    by (simp add: usuario_de_perfil_def)
  have ps: "permissoes_de ''FINANCEIRO'' =
      [''pessoas.ver'', ''doacoes.ver'', ''doacoes.editar'', ''relatorios.financeiro'',
       ''dashboard.financeiro'']"
    by (simp add: PERFIS_def permissoes_de_def)
  have h2: "map_of PERFIS ''FINANCEIRO'' = Some (permissoes_de ''FINANCEIRO'')"
    by (simp add: PERFIS_def permissoes_de_def)
  have seg: "primeiro_segmento (''doacoes.'' @ a) = ''doacoes''" for a
    by (simp add: primeiro_segmento_def)
  have geral: "tem_permissao (Some (usuario_de_perfil ''FINANCEIRO'')) (''doacoes.'' @ a)" for a
    unfolding tem_permissao_perfil [OF h1 h2] ps seg
    by (simp add: startswith_def)
  have filtro: "filter (\<lambda>e. startswith e ''doacoes'') (permissoes_de ''FINANCEIRO'') =
      [''doacoes.ver'', ''doacoes.editar'']"
    unfolding ps by (simp add: startswith_def)
  have excluir: "tem_permissao (Some (usuario_de_perfil ''FINANCEIRO'')) ''doacoes.excluir''"
    using geral [of "''excluir''"] by simp
  show ?thesis
    using geral [of acao] filtro excluir by (auto simp: tem_permissao_perfil)
qed

theorem C2_prefixo_concede_modulo_witness:
  "map_of (usuario_de_perfil ''LIDER'') ''perfil'' = Some (VText ''LIDER'') \<and>
   map_of PERFIS ''LIDER'' = Some (permissoes_de ''LIDER'') \<and>
   ''eventos.ver'' \<in> set (permissoes_de ''LIDER'') \<and>
   startswith ''eventos.ver'' (primeiro_segmento ''eventos.editar'') \<and>
   tem_permissao (Some (usuario_de_perfil ''LIDER'')) ''eventos.editar''"
proof -
  have h1: "map_of (usuario_de_perfil ''LIDER'') ''perfil'' = Some (VText ''LIDER'')"
    by (simp add: usuario_de_perfil_def)
  have h2: "map_of PERFIS ''LIDER'' = Some (permissoes_de ''LIDER'')"
    by (simp add: PERFIS_def permissoes_de_def)
  have h3: "''eventos.ver'' \<in> set (permissoes_de ''LIDER'')"
    by (simp add: PERFIS_def permissoes_de_def)
  have h4: "startswith ''eventos.ver'' (primeiro_segmento ''eventos.editar'')"
    by (simp add: startswith_def primeiro_segmento_def)
  from C2_prefixo_concede_modulo [of "usuario_de_perfil ''LIDER''" "''LIDER''"
      "permissoes_de ''LIDER''" "''eventos.ver''" "''eventos.editar''" "[]"] h1 h2 h3 h4
  show ?thesis by blast
qed

section \<open>Properties of the people operations\<close>

lemma dget_update: "dget (AList.update k v r) k' = (if k' = k then v else dget r k')"
  by (simp add: dget_def update_conv')

lemma dget_soft_delete:
  "dget (atualiza r [(''ativo'', VInt 0), (''data_atualizacao'', VText t)]) k =
     (if k = ''data_atualizacao'' then VText t else if k = ''ativo'' then VInt 0 else dget r k)"
  by (simp add: atualiza_def dget_update)

lemma casa_soft_delete:
  "casa_pessoa pid ig (atualiza r [(''ativo'', VInt 0), (''data_atualizacao'', VText t)]) =
   casa_pessoa pid ig r"
  by (simp add: casa_pessoa_def dget_soft_delete)

lemma dget_extras:
  "k \<noteq> ''familia_nome'' \<Longrightarrow> k \<noteq> ''tags'' \<Longrightarrow>
   dget (r @ [(''familia_nome'', a), (''tags'', b)]) k = dget r k"
  by (simp add: dget_def map_add_def split: option.splits)

lemma dget_extra1:
  "k \<noteq> ''familia_nome'' \<Longrightarrow> dget (r @ [(''familia_nome'', a)]) k = dget r k"
  by (simp add: dget_def map_add_def split: option.splits)

lemma filter_map_alvo:
  assumes "\<And>x. P (h x) = P x"
  shows "filter P (map (\<lambda>r. if P r then h r else r) xs) = map h (filter P xs)"
  using assms by (induction xs) auto

lemma get_pessoas_linha:
  assumes "p \<in> set (get_pessoas c filtros db)"
  shows "\<exists>r \<in> set (pessoas db).
           p = r @ [(''familia_nome'', familia_nome_de db r), (''tags'', tags_de db filtros r)]
           \<and> sql_eq (dget r ''igreja_id'') (get_igreja_id c)
           \<and> (dget r ''ativo'' = VNone \<or> dget r ''ativo'' = VInt 1)"
  using assms by (auto simp: get_pessoas_def Let_def sql_eq_def)

lemma excluir_pessoa_ok:
  assumes "usuario_id_de (get_usuario_atual c) = Inr uid"
    and "list_ex (casa_pessoa (VInt pid) (get_igreja_id c)) (pessoas db)"
  shows "excluir_pessoa c pid db =
     (True, registrar_log c uid (get_igreja_id c) ''pessoa.excluir''
        (db\<lparr>pessoas := map (\<lambda>r. if casa_pessoa (VInt pid) (get_igreja_id c) r
                then atualiza r [(''ativo'', VInt 0), (''data_atualizacao'', VText (agora c))]
                else r) (pessoas db)\<rparr>))"
  using assms by (simp add: excluir_pessoa_def Let_def)

lemma excluir_pessoa_true:
  assumes "fst (excluir_pessoa c pid db)"
  shows "pessoas (snd (excluir_pessoa c pid db)) =
     map (\<lambda>r. if casa_pessoa (VInt pid) (get_igreja_id c) r
                then atualiza r [(''ativo'', VInt 0), (''data_atualizacao'', VText (agora c))]
                else r) (pessoas db)"
  using assms
  by (auto simp: excluir_pessoa_def Let_def registrar_log_def split: sum.splits if_splits)

lemma pessoas_registrar_log [simp]: "pessoas (registrar_log c u i a db) = pessoas db"
  by (simp add: registrar_log_def)

lemma familias_registrar_log [simp]: "familias (registrar_log c u i a db) = familias db"
  by (simp add: registrar_log_def)

lemma get_pessoa_apos_excluir:
  assumes "usuario_id_de (get_usuario_atual c) = Inr uid"
    and "list_ex (casa_pessoa (VInt pid) (get_igreja_id c)) (pessoas db)"
  shows "\<exists>p. get_pessoa c pid (snd (excluir_pessoa c pid db)) = Some p \<and>
             dget p ''id'' = VInt pid \<and> dget p ''ativo'' = VInt 0"
proof -
  let ?P = "casa_pessoa (VInt pid) (get_igreja_id c)"
  let ?h = "\<lambda>r. atualiza r [(''ativo'', VInt 0), (''data_atualizacao'', VText (agora c))]"
  from assms(2) obtain r rs where f: "filter ?P (pessoas db) = r # rs"
    by (cases "filter ?P (pessoas db)") (auto simp: list_ex_iff filter_empty_conv)
  then have "r \<in> set (filter ?P (pessoas db))" by simp
  then have Pr: "?P r" by simp
  have "filter ?P (map (\<lambda>r. if ?P r then ?h r else r) (pessoas db)) = map ?h (filter ?P (pessoas db))"
    by (rule filter_map_alvo) (simp add: casa_soft_delete)
  then have "filter ?P (pessoas (snd (excluir_pessoa c pid db))) = ?h r # map ?h rs"
    by (simp add: excluir_pessoa_ok [OF assms] f)
  then have "get_pessoa c pid (snd (excluir_pessoa c pid db)) =
      Some (?h r @ [(''familia_nome'', familia_nome_de (snd (excluir_pessoa c pid db)) (?h r))])"
    by (simp add: get_pessoa_def)
  moreover have "dget (?h r) ''id'' = VInt pid"
    using Pr by (simp add: dget_soft_delete casa_pessoa_def sql_eq_def)
  ultimately show ?thesis
    by (simp add: dget_extra1 dget_soft_delete)
qed

text \<open>
  C8. The listing never returns a row whose \<open>ativo\<close> is 0, whoever asks and whatever the
  filters; and once \<open>excluir_pessoa\<close> has returned \<open>True\<close> for a person of the caller's
  church, no listing, for any caller and any combination of status, search and tag filters,
  returns that person.
\<close>

theorem C8_excluidos_fora_da_listagem:
  "(\<forall>p \<in> set (get_pessoas c' filtros db). dget p ''ativo'' \<noteq> VInt 0) \<and>
   (fst (excluir_pessoa c pid db) \<longrightarrow>
      (\<forall>p \<in> set (get_pessoas c' filtros (snd (excluir_pessoa c pid db))).
          \<not> casa_pessoa (VInt pid) (get_igreja_id c) p))"
proof (intro conjI ballI impI)
  fix p assume "p \<in> set (get_pessoas c' filtros db)"
  from get_pessoas_linha [OF this] show "dget p ''ativo'' \<noteq> VInt 0"
    by (auto simp: dget_extras)
next
  fix p
  assume ok: "fst (excluir_pessoa c pid db)"
    and p: "p \<in> set (get_pessoas c' filtros (snd (excluir_pessoa c pid db)))"
  let ?db' = "snd (excluir_pessoa c pid db)"
  from get_pessoas_linha [OF p] obtain r where r: "r \<in> set (pessoas ?db')"
    and pr: "p = r @ [(''familia_nome'', familia_nome_de ?db' r), (''tags'', tags_de ?db' filtros r)]"
    and at: "dget r ''ativo'' = VNone \<or> dget r ''ativo'' = VInt 1" by blast
  have casa: "casa_pessoa (VInt pid) (get_igreja_id c) p = casa_pessoa (VInt pid) (get_igreja_id c) r"
    unfolding pr by (simp add: casa_pessoa_def dget_extras)
  from r obtain r0 where r0: "r0 \<in> set (pessoas db)"
    and rr: "r = (if casa_pessoa (VInt pid) (get_igreja_id c) r0
                  then atualiza r0 [(''ativo'', VInt 0), (''data_atualizacao'', VText (agora c))]
                  else r0)"
    unfolding excluir_pessoa_true [OF ok] by auto
  show "\<not> casa_pessoa (VInt pid) (get_igreja_id c) p"
  proof
    assume "casa_pessoa (VInt pid) (get_igreja_id c) p"
    with casa have cr: "casa_pessoa (VInt pid) (get_igreja_id c) r" by simp
    have "casa_pessoa (VInt pid) (get_igreja_id c) r0"
      using cr rr by (auto simp: casa_soft_delete split: if_splits)
    with rr have "dget r ''ativo'' = VInt 0" by (simp add: dget_soft_delete)
    with at show False by simp
  qed
qed


theorem C8_excluidos_fora_da_listagem_witness:
  "fst (excluir_pessoa ctx_exemplo 2 banco_exemplo) \<and>
   map nome_de (get_pessoas ctx_exemplo None
      (snd (excluir_pessoa ctx_exemplo 2 banco_exemplo))) = [''Ana''] \<and>
   \<not> casa_pessoa (VInt 2) (get_igreja_id ctx_exemplo)
      (hd (get_pessoas ctx_exemplo None (snd (excluir_pessoa ctx_exemplo 2 banco_exemplo))))"
proof -
  let ?l = "get_pessoas ctx_exemplo None (snd (excluir_pessoa ctx_exemplo 2 banco_exemplo))"
  have h: "fst (excluir_pessoa ctx_exemplo 2 banco_exemplo)" by code_simp
  have n: "map nome_de ?l = [''Ana'']" by code_simp
  then have "?l \<noteq> []" by auto
  then have mem: "hd ?l \<in> set ?l" by simp
  from C8_excluidos_fora_da_listagem
    [where c = ctx_exemplo and c' = ctx_exemplo and filtros = None and pid = 2
       and db = banco_exemplo] h mem
  have "\<not> casa_pessoa (VInt 2) (get_igreja_id ctx_exemplo) (hd ?l)" by blast
  with h n show ?thesis by simp
qed

text \<open>
  C10. For a logged-in caller and a person id present in the caller's church,
  \<open>excluir_pessoa\<close> returns \<open>True\<close>; in \<open>pessoas\<close> the rows of that person get
  \<open>ativo = 0\<close> and \<open>data_atualizacao\<close> set to the current time and keep every other
  column, and every other row is unchanged; no other table changes except that the access
  log receives at most one new row; and \<open>get_pessoa\<close> still returns the person, now with
  \<open>ativo = 0\<close>. For an id not present in the church it returns \<open>False\<close> and changes
  nothing.
\<close>

theorem C10_excluir_pessoa_moldura:
  "(usuario_id_de (get_usuario_atual c) = Inr uid \<and>
    list_ex (casa_pessoa (VInt pid) (get_igreja_id c)) (pessoas db) \<longrightarrow>
      fst (excluir_pessoa c pid db) = True \<and>
      length (pessoas (snd (excluir_pessoa c pid db))) = length (pessoas db) \<and>
      (\<forall>i < length (pessoas db).
         if casa_pessoa (VInt pid) (get_igreja_id c) (pessoas db ! i)
         then dget (pessoas (snd (excluir_pessoa c pid db)) ! i) ''ativo'' = VInt 0 \<and>
              dget (pessoas (snd (excluir_pessoa c pid db)) ! i) ''data_atualizacao'' =
                VText (agora c) \<and>
              (\<forall>k. k \<noteq> ''ativo'' \<and> k \<noteq> ''data_atualizacao'' \<longrightarrow>
                 dget (pessoas (snd (excluir_pessoa c pid db)) ! i) k = dget (pessoas db ! i) k)
         else pessoas (snd (excluir_pessoa c pid db)) ! i = pessoas db ! i) \<and>
      (snd (excluir_pessoa c pid db))\<lparr>pessoas := pessoas db, logs_acesso := logs_acesso db\<rparr> = db \<and>
      logs_acesso (snd (excluir_pessoa c pid db)) =
        logs_acesso db @
          (if log_falha c then []
           else [\<lparr>l_usuario_id = uid, l_igreja_id = get_igreja_id c,
                  l_acao = ''pessoa.excluir''\<rparr>]) \<and>
      (\<exists>p. get_pessoa c pid (snd (excluir_pessoa c pid db)) = Some p \<and>
           dget p ''id'' = VInt pid \<and> dget p ''ativo'' = VInt 0)) \<and>
   (\<not> list_ex (casa_pessoa (VInt pid) (get_igreja_id c)) (pessoas db) \<longrightarrow>
      excluir_pessoa c pid db = (False, db))"
proof (intro conjI impI)
  assume "\<not> list_ex (casa_pessoa (VInt pid) (get_igreja_id c)) (pessoas db)"
  then show "excluir_pessoa c pid db = (False, db)"
    by (simp add: excluir_pessoa_def Let_def)
next
  assume h: "usuario_id_de (get_usuario_atual c) = Inr uid \<and>
    list_ex (casa_pessoa (VInt pid) (get_igreja_id c)) (pessoas db)"
  then have ok: "excluir_pessoa c pid db =
     (True, registrar_log c uid (get_igreja_id c) ''pessoa.excluir''
        (db\<lparr>pessoas := map (\<lambda>r. if casa_pessoa (VInt pid) (get_igreja_id c) r
                then atualiza r [(''ativo'', VInt 0), (''data_atualizacao'', VText (agora c))]
                else r) (pessoas db)\<rparr>))"
    by (simp add: excluir_pessoa_ok)
  show "fst (excluir_pessoa c pid db) = True" by (simp add: ok)
  show "length (pessoas (snd (excluir_pessoa c pid db))) = length (pessoas db)"
    by (simp add: ok)
  show "\<forall>i < length (pessoas db).
         if casa_pessoa (VInt pid) (get_igreja_id c) (pessoas db ! i)
         then dget (pessoas (snd (excluir_pessoa c pid db)) ! i) ''ativo'' = VInt 0 \<and>
              dget (pessoas (snd (excluir_pessoa c pid db)) ! i) ''data_atualizacao'' =
                VText (agora c) \<and>
              (\<forall>k. k \<noteq> ''ativo'' \<and> k \<noteq> ''data_atualizacao'' \<longrightarrow>
                 dget (pessoas (snd (excluir_pessoa c pid db)) ! i) k = dget (pessoas db ! i) k)
         else pessoas (snd (excluir_pessoa c pid db)) ! i = pessoas db ! i"
    by (simp add: ok dget_soft_delete)
  show "(snd (excluir_pessoa c pid db))\<lparr>pessoas := pessoas db, logs_acesso := logs_acesso db\<rparr> = db"
    by (simp add: ok registrar_log_def)
  show "logs_acesso (snd (excluir_pessoa c pid db)) =
        logs_acesso db @
          (if log_falha c then []
           else [\<lparr>l_usuario_id = uid, l_igreja_id = get_igreja_id c,
                  l_acao = ''pessoa.excluir''\<rparr>])"
    by (simp add: ok registrar_log_def)
  show "\<exists>p. get_pessoa c pid (snd (excluir_pessoa c pid db)) = Some p \<and>
           dget p ''id'' = VInt pid \<and> dget p ''ativo'' = VInt 0"
    using h by (simp add: get_pessoa_apos_excluir)
qed

theorem C10_excluir_pessoa_moldura_witness:
  "usuario_id_de (get_usuario_atual ctx_exemplo) = Inr (VInt 1) \<and>
   list_ex (casa_pessoa (VInt 2) (get_igreja_id ctx_exemplo)) (pessoas banco_exemplo) \<and>
   fst (excluir_pessoa ctx_exemplo 2 banco_exemplo) = True \<and>
   logs_acesso (snd (excluir_pessoa ctx_exemplo 2 banco_exemplo)) =
     [\<lparr>l_usuario_id = VInt 1, l_igreja_id = VInt 1, l_acao = ''pessoa.excluir''\<rparr>] \<and>
   \<not> list_ex (casa_pessoa (VInt 7) (get_igreja_id ctx_exemplo)) (pessoas banco_exemplo) \<and>
   excluir_pessoa ctx_exemplo 7 banco_exemplo = (False, banco_exemplo)"
proof -
  have h: "usuario_id_de (get_usuario_atual ctx_exemplo) = Inr (VInt 1) \<and>
    list_ex (casa_pessoa (VInt 2) (get_igreja_id ctx_exemplo)) (pessoas banco_exemplo)"
    by code_simp
  have g: "\<not> list_ex (casa_pessoa (VInt 7) (get_igreja_id ctx_exemplo)) (pessoas banco_exemplo)"
    by code_simp
  from C10_excluir_pessoa_moldura
    [where c = ctx_exemplo and uid = "VInt 1" and pid = 2 and db = banco_exemplo] h
  have a: "fst (excluir_pessoa ctx_exemplo 2 banco_exemplo) = True \<and>
    logs_acesso (snd (excluir_pessoa ctx_exemplo 2 banco_exemplo)) =
      logs_acesso banco_exemplo @
        (if log_falha ctx_exemplo then []
         else [\<lparr>l_usuario_id = VInt 1, l_igreja_id = get_igreja_id ctx_exemplo,
                l_acao = ''pessoa.excluir''\<rparr>])"
    by blast
  from C10_excluir_pessoa_moldura
    [where c = ctx_exemplo and uid = "VInt 1" and pid = 7 and db = banco_exemplo] g
  have b: "excluir_pessoa ctx_exemplo 7 banco_exemplo = (False, banco_exemplo)" by blast
  from a have a': "fst (excluir_pessoa ctx_exemplo 2 banco_exemplo) = True \<and>
    logs_acesso (snd (excluir_pessoa ctx_exemplo 2 banco_exemplo)) =
      [\<lparr>l_usuario_id = VInt 1, l_igreja_id = VInt 1, l_acao = ''pessoa.excluir''\<rparr>]"
    by (simp add: ctx_exemplo_def banco_exemplo_def get_igreja_id_def)
  from h g a' b show ?thesis by simp
qed

section \<open>Properties of visit registration\<close>


lemma insere_followups_pendente:
  "insere_followups hj pid fls t = Inr t' \<Longrightarrow>
   \<exists>novos. t' = t @ novos \<and> (\<forall>f \<in> set novos. f_status f = Some ''pendente'')"
proof (induction fls arbitrary: t)
  case Nil
  then show ?case by simp
next
  case (Cons fl fls)
  then show ?case
    by (fastforce simp: novo_followup_def split: sum.splits)
qed







section \<open>Properties of the follow-up lifecycle\<close>













section \<open>Properties of the status funnel\<close>














section \<open>Properties of the donation summary\<close>









section \<open>Properties of the counseling records\<close>

text \<open>
  Under the library's contract, decrypting what \<open>encrypt_data\<close> made of a non-empty text
  gives the text back.
\<close>

lemma decrypt_encrypt_data:
  assumes "contrato_fernet L" and "s \<noteq> []"
  shows "decrypt_data L (encrypt_data L n (Some s)) = Some s"
  using assms by (simp add: contrato_fernet_def encrypt_data_def decrypt_data_def)

lemma contrato_lib_exemplo: "contrato_fernet lib_exemplo"
  by (simp add: contrato_fernet_def lib_exemplo_def)

text \<open>
  \<open>registrar_aconselhamento\<close> stores a non-empty summary as the token that
  \<open>encrypt_data\<close> makes of it under the key derived from the secret, and
  \<open>decrypt_data\<close> reads the plaintext back from the stored row.
\<close>

lemma registrar_aconselhamento_cifrado:
  assumes "contrato_fernet L"
    and "usuario_id_de (get_usuario_atual c) = Inr uid"
    and "get_igreja_id c = VInt ig"
    and "da_resumo dados = Some s" and "s \<noteq> []"
  shows "fst (registrar_aconselhamento c L n1 n2 dados db) =
           Inr (proximo_id (map a_id (aconselhamentos db))) \<and>
         a_resumo_criptografado
           (last (aconselhamentos (snd (registrar_aconselhamento c L n1 n2 dados db)))) =
           Some (lib_fernet_encrypt L
                   (lib_urlsafe_b64encode L (lib_sha256 L (lib_secret_key L))) n1 s) \<and>
         decrypt_data L (a_resumo_criptografado
           (last (aconselhamentos (snd (registrar_aconselhamento c L n1 n2 dados db))))) =
           Some s"
proof -
  have e: "encrypt_data L n1 (Some s) = Some (lib_fernet_encrypt L (get_encryption_key L) n1 s)"
    using assms(5) by (simp add: encrypt_data_def)
  have r: "registrar_aconselhamento c L n1 n2 dados db =
     (Inr (proximo_id (map a_id (aconselhamentos db))),
      registrar_log c uid (VInt ig) ''aconselhamento.criar''
        (db\<lparr>aconselhamentos := aconselhamentos db @
          [\<lparr>a_id = proximo_id (map a_id (aconselhamentos db)), a_igreja_id = ig,
            a_pessoa_id = da_pessoa_id dados, a_conselheiro_id = da_conselheiro_id dados,
            a_data_atendimento = da_data_atendimento dados, a_tipo = da_tipo dados,
            a_resumo_criptografado = Some (lib_fernet_encrypt L (get_encryption_key L) n1 s),
            a_notas_criptografadas = (if texto_truthy (da_notas dados)
                                      then encrypt_data L n2 (da_notas dados) else None),
            a_status = (case da_status dados of
                          None \<Rightarrow> Some ''em_andamento'' | Some s \<Rightarrow> Some s),
            a_proximo_encontro = da_proximo_encontro dados\<rparr>]\<rparr>))"
    using assms(2-5)
    by (simp add: registrar_aconselhamento_def Let_def texto_truthy_def e)
  have d: "decrypt_data L (Some (lib_fernet_encrypt L (get_encryption_key L) n1 s)) = Some s"
    using decrypt_encrypt_data [OF assms(1) assms(5), of n1] by (simp add: e)
  show ?thesis
    unfolding r using d by (simp add: registrar_log_def get_encryption_key_def)
qed

text \<open>
  C9, at the input where the code departs from it. The demonstration data binds its fixed
  summary to \<open>resumo_criptografado\<close> without calling \<open>encrypt_data\<close>: the row holds
  the sentence itself, which is not what \<open>encrypt_data\<close> makes of it and which the
  library rejects as a token, so that \<open>decrypt_data\<close> hands the stored text back through
  its handler.
\<close>

theorem C9_semente_texto_claro:
  "a_resumo_criptografado (last (aconselhamentos
      (semear_aconselhamento 2 1 ''2026-10-01'' ''Espiritual'' ''concluido'' banco_exemplo))) =
     Some resumo_demo \<and>
   encrypt_data lib_exemplo 0 (Some resumo_demo) \<noteq> Some resumo_demo \<and>
   lib_fernet_decrypt lib_exemplo (get_encryption_key lib_exemplo) resumo_demo = None \<and>
   decrypt_data lib_exemplo (Some resumo_demo) = Some resumo_demo"
  by (simp add: semear_aconselhamento_def encrypt_data_def decrypt_data_def lib_exemplo_def
      get_encryption_key_def resumo_demo_def)

end
